theory Spec2Isabelle
  imports Main
begin

section \<open>The authentication router (app/auth/router.py)\<close>

text \<open>
  The router is a table of seven request handlers over three collaborators: the DAOs of
  the credential store, the password and token utilities, and the dependencies that
  resolve the current user from a cookie. Each handler is embedded as a function from the
  request data and the store to a result (an exception or a reply) and the store
  after the request. A handler that writes cookies also takes and returns the response.
\<close>

subsection \<open>Exceptions and replies\<close>

text \<open>
  The exceptions a request can end with. \<open>UserAlreadyExistsException\<close> and
  \<open>IncorrectEmailOrPasswordException\<close> are the two the router imports from
  \<^verbatim>\<open>app.exceptions\<close>; they are the errors the specification calls DuplicateUser and
  InvalidCredentials. \<open>IntegrityError\<close> is the storage layer's constraint violation and
  \<open>ValidationError\<close> the schema library's. \<open>Unauthorized\<close> and \<open>Forbidden\<close> are raised by
  the dependencies only and carry the specification's names.
\<close>

datatype exception =
    UserAlreadyExistsException
  | IncorrectEmailOrPasswordException
  | IntegrityError
  | ValidationError
  | Unauthorized
  | Forbidden

subsection \<open>Schemas and rows\<close>

datatype Role = Role (role_name: string)

record User =
  id' :: nat
  email :: string
  phone_number :: string
  password :: string
  roles :: "Role list"

text \<open>
  The request schemas. The specification names four fields of a registration and two of a
  login; the further profile fields of a registration are not named and are left out.
  \<open>password\<close> of a stored \<open>User\<close> is the stored hash.
\<close>

record SUserRegister =
  email :: string
  phone_number :: string
  password :: string
  confirm_password :: string

record SUserAuth =
  email :: string
  password :: string

record SUserAddDB =
  email :: string
  phone_number :: string
  password :: string

datatype RoleAddModel = RoleAddModel (name: string)

datatype filters = EmailModel string | PhoneModel string

text \<open>A dumped model is a dictionary from field names to values.\<close>

type_synonym dict = "string \<rightharpoonup> string"

definition model_dump :: "SUserRegister \<Rightarrow> dict" where
  "model_dump user_data =
     [''email'' \<mapsto> SUserRegister.email user_data,
      ''phone_number'' \<mapsto> SUserRegister.phone_number user_data,
      ''password'' \<mapsto> SUserRegister.password user_data,
      ''confirm_password'' \<mapsto> SUserRegister.confirm_password user_data]"

text \<open>\<^verbatim>\<open>d.pop(key, None)\<close>: the key is removed when present, and nothing is raised.\<close>

definition pop :: "string \<Rightarrow> dict \<Rightarrow> dict" where
  "pop key d = d(key := None)"

text \<open>
  \<^verbatim>\<open>SUserAddDB(**d)\<close>: the schema is built from the keyword arguments and needs its three
  fields; a missing one is a validation error (\<open>None\<close>).
\<close>

definition SUserAddDB_of :: "dict \<Rightarrow> SUserAddDB option" where
  "SUserAddDB_of d =
     (case d ''email'' of
        None \<Rightarrow> None
      | Some e \<Rightarrow>
          (case d ''phone_number'' of
             None \<Rightarrow> None
           | Some p \<Rightarrow>
               (case d ''password'' of
                  None \<Rightarrow> None
                | Some w \<Rightarrow>
                    Some \<lparr>SUserAddDB.email = e, SUserAddDB.phone_number = p,
                          SUserAddDB.password = w\<rparr>)))"

definition model_dump_role :: "RoleAddModel \<Rightarrow> dict" where
  "model_dump_role role_data = [''name'' \<mapsto> name role_data]"

definition RoleAddModel_of :: "dict \<Rightarrow> RoleAddModel option" where
  "RoleAddModel_of d = map_option RoleAddModel (d ''name'')"

subsection \<open>The credential store and its DAOs\<close>

text \<open>
  The two session dependencies of \<^verbatim>\<open>app.dependencies.dao_dep\<close>. A DAO is built over the
  session its handler declares, and every DAO call is logged with it.
\<close>

datatype session = get_session_with_commit | get_session_without_commit

datatype call =
    Find_user session filters
  | Add_user session SUserAddDB
  | Find_all_users session
  | Find_role session RoleAddModel
  | Add_role session RoleAddModel

text \<open>
  The store holds the user and role tables and the log of the DAO calls made on it.
  \<open>racing\<close> are the rows that concurrent registrations commit after this request's
  existence lookups and before its insert (the specification's ``race between check and
  insert''): the lookups do not see them, the insert does.
\<close>

record store =
  users :: "User list"
  roles_table :: "Role list"
  racing :: "User list"
  calls :: "call list"

definition matches :: "filters \<Rightarrow> User \<Rightarrow> bool" where
  "matches f u =
     (case f of
        EmailModel e \<Rightarrow> User.email u = e
      | PhoneModel p \<Rightarrow> User.phone_number u = p)"

text \<open>
  \<^verbatim>\<open>UsersDAO\<close> and \<^verbatim>\<open>RoleDAO\<close> of \<^verbatim>\<open>app.auth.dao\<close> are not among the sources. The
  specification describes the credential store they wrap: it ``exposes
  \<^verbatim>\<open>find_one_or_none(filter)\<close>, \<^verbatim>\<open>add(record)\<close>'' and ``enforces uniqueness at the storage
  layer'', email and phone number each being unique across users and role names across
  roles.
\<close>

text \<open>
  Modelled from the spec: \<^verbatim>\<open>UsersDAO.find_one_or_none\<close> is missing. An existence lookup:
  the first user the filter matches, if any; the tables are only read.
\<close>

definition users_find_one_or_none ::
  "session \<Rightarrow> filters \<Rightarrow> store \<Rightarrow> User option \<times> store" where
  "users_find_one_or_none sess f s =
     (find (matches f) (users s), s\<lparr>calls := calls s @ [Find_user sess f]\<rparr>)"

text \<open>
  Modelled from the spec: the \<^verbatim>\<open>User\<close> model of \<^verbatim>\<open>app.auth.models\<close> is missing. A user is
  ``created on registration'' from the inserted values; the specification gives a new
  user no role and does not say how ids are chosen: a new row takes the least id above
  those in the table.
\<close>

definition next_id :: "User list \<Rightarrow> nat" where
  "next_id us = Suc (fold max (map id' us) 0)"

definition new_user :: "nat \<Rightarrow> SUserAddDB \<Rightarrow> User" where
  "new_user i v =
     \<lparr>id' = i, User.email = SUserAddDB.email v,
      User.phone_number = SUserAddDB.phone_number v,
      User.password = SUserAddDB.password v, roles = []\<rparr>"

text \<open>
  Modelled from the spec: \<^verbatim>\<open>UsersDAO.add\<close> is missing. The insert sees the table as it is
  at insert time, the rows of concurrent registrations included. ``The storage-layer
  integrity constraint is the actual invariant enforcer'': when the email or the phone
  number is already in the table the insert raises \<open>IntegrityError\<close> and adds no row.
\<close>

definition users_add :: "session \<Rightarrow> SUserAddDB \<Rightarrow> store \<Rightarrow> (exception + unit) \<times> store" where
  "users_add sess v s =
     (let table = users s @ racing s;
          s' = s\<lparr>users := table, racing := [], calls := calls s @ [Add_user sess v]\<rparr>
      in if SUserAddDB.email v \<in> set (map User.email table)
            \<or> SUserAddDB.phone_number v \<in> set (map User.phone_number table)
         then (Inl IntegrityError, s')
         else (Inr (), s'\<lparr>users := table @ [new_user (next_id table) v]\<rparr>))"

text \<open>
  Modelled from the spec: \<^verbatim>\<open>UsersDAO.find_all\<close> is missing. The admin listing ``returns
  all users'': every row of the user table, which is only read.
\<close>

definition users_find_all :: "session \<Rightarrow> store \<Rightarrow> User list \<times> store" where
  "users_find_all sess s = (users s, s\<lparr>calls := calls s @ [Find_all_users sess]\<rparr>)"

text \<open>
  Modelled from the spec: \<^verbatim>\<open>RoleDAO.find_one_or_none\<close> is missing. The first role with the
  name of the filter, if any; the tables are only read.
\<close>

definition role_find_one_or_none ::
  "session \<Rightarrow> RoleAddModel \<Rightarrow> store \<Rightarrow> Role option \<times> store" where
  "role_find_one_or_none sess f s =
     (find (\<lambda>r. role_name r = name f) (roles_table s),
      s\<lparr>calls := calls s @ [Find_role sess f]\<rparr>)"

text \<open>
  Modelled from the spec: \<^verbatim>\<open>RoleDAO.add\<close> is missing. Role names are ``unique across
  roles'': the insert of a name already in the table raises \<open>IntegrityError\<close> and adds no
  row; otherwise a role of that name is appended. A role is a name and nothing else.
\<close>

definition role_add :: "session \<Rightarrow> RoleAddModel \<Rightarrow> store \<Rightarrow> (exception + unit) \<times> store" where
  "role_add sess v s =
     (let s' = s\<lparr>calls := calls s @ [Add_role sess v]\<rparr>
      in if name v \<in> set (map role_name (roles_table s))
         then (Inl IntegrityError, s')
         else (Inr (), s'\<lparr>roles_table := roles_table s @ [Role (name v)]\<rparr>))"

subsection \<open>Passwords, tokens and cookies\<close>

text \<open>
  The password hasher and the token library are outside the repository, and which roles
  count as admin roles is not said; a handler sees them through these functions.
  \<open>jwt_decode\<close> checks a token's signature and expiry and reads the user id it carries.
\<close>

datatype jwt_result = Invalid_token | Expired_token | Claims nat

record utils =
  verify_password :: "string \<Rightarrow> string \<Rightarrow> bool"
  create_access_token :: "nat \<Rightarrow> string"
  create_refresh_token :: "nat \<Rightarrow> string"
  jwt_decode :: "string \<Rightarrow> jwt_result"
  is_admin_role :: "Role \<Rightarrow> bool"

text \<open>
  A response carries the cookie headers it was given, in order: \<^verbatim>\<open>response.set_cookie\<close>
  and \<^verbatim>\<open>response.delete_cookie\<close> of the web framework each append one. \<open>client_cookies\<close>
  is what the headers do to the cookies the client holds.
\<close>

datatype cookie_header = Set_cookie string string | Delete_cookie string

type_synonym response = "cookie_header list"

type_synonym cookies = "string \<rightharpoonup> string"

definition set_cookie :: "string \<Rightarrow> string \<Rightarrow> response \<Rightarrow> response" where
  "set_cookie key v response = response @ [Set_cookie key v]"

definition delete_cookie :: "string \<Rightarrow> response \<Rightarrow> response" where
  "delete_cookie key response = response @ [Delete_cookie key]"

fun client_cookies :: "response \<Rightarrow> cookies \<Rightarrow> cookies" where
  "client_cookies [] jar = jar"
| "client_cookies (Set_cookie key v # hs) jar = client_cookies hs (jar(key \<mapsto> v))"
| "client_cookies (Delete_cookie key # hs) jar = client_cookies hs (jar(key := None))"

text \<open>
  Modelled from the spec: \<^verbatim>\<open>authenticate_user\<close> of \<^verbatim>\<open>app.auth.utils\<close> is missing. The
  authenticator ``verifies a submitted password against a stored hash for a given
  user''; the result is whether it verified.
\<close>

definition authenticate_user :: "utils \<Rightarrow> User \<Rightarrow> string \<Rightarrow> bool" where
  "authenticate_user u user pw = verify_password u pw (User.password user)"

text \<open>
  Modelled from the spec: \<^verbatim>\<open>set_tokens\<close> of \<^verbatim>\<open>app.auth.utils\<close> is missing. The token issuer
  ``creates a signed access token and a signed refresh token for a user id; writes both
  as response cookies'', under the fixed names \<^verbatim>\<open>user_access_token\<close> and
  \<^verbatim>\<open>user_refresh_token\<close>.
\<close>

definition set_tokens :: "utils \<Rightarrow> response \<Rightarrow> nat \<Rightarrow> response" where
  "set_tokens u response user_id =
     set_cookie ''user_refresh_token'' (create_refresh_token u user_id)
       (set_cookie ''user_access_token'' (create_access_token u user_id) response)"

subsection \<open>The dependencies that resolve the current user\<close>

text \<open>
  Modelled from the spec: the token validator of \<^verbatim>\<open>app.dependencies.auth_dep\<close> is missing.
  It ``extracts and verifies a token from the request, resolves it to a user identity,
  or fails'': with \<open>Unauthorized\<close> when the cookie is missing, when the token is invalid
  or expired, and when it names no user of the store. It reads the store and makes no
  DAO call through the handler's session.
\<close>

definition resolve_token :: "utils \<Rightarrow> string \<Rightarrow> cookies \<Rightarrow> store \<Rightarrow> exception + User" where
  "resolve_token u key jar s =
     (case jar key of
        None \<Rightarrow> Inl Unauthorized
      | Some token \<Rightarrow>
          (case jwt_decode u token of
             Invalid_token \<Rightarrow> Inl Unauthorized
           | Expired_token \<Rightarrow> Inl Unauthorized
           | Claims user_id \<Rightarrow>
               (case find (\<lambda>x. id' x = user_id) (users s) of
                  None \<Rightarrow> Inl Unauthorized
                | Some user \<Rightarrow> Inr user)))"

text \<open>
  Modelled from the spec: \<^verbatim>\<open>get_current_user\<close> of \<^verbatim>\<open>app.dependencies.auth_dep\<close> is
  missing. It ``requires a valid AccessToken'', read from the cookie
  \<^verbatim>\<open>user_access_token\<close>.
\<close>

definition get_current_user :: "utils \<Rightarrow> cookies \<Rightarrow> store \<Rightarrow> exception + User" where
  "get_current_user u jar s = resolve_token u ''user_access_token'' jar s"

text \<open>
  Modelled from the spec: \<^verbatim>\<open>check_refresh_token\<close> of \<^verbatim>\<open>app.dependencies.auth_dep\<close> is
  missing. Its input is the ``RefreshToken cookie'', \<^verbatim>\<open>user_refresh_token\<close>; it must
  ``validate signature + expiry + resolve user'' and fails with \<open>Unauthorized\<close> otherwise.
\<close>

definition check_refresh_token :: "utils \<Rightarrow> cookies \<Rightarrow> store \<Rightarrow> exception + User" where
  "check_refresh_token u jar s = resolve_token u ''user_refresh_token'' jar s"

text \<open>
  Modelled from the spec: \<^verbatim>\<open>get_current_admin_user\<close> of \<^verbatim>\<open>app.dependencies.auth_dep\<close> is
  missing. It ``requires a valid AccessToken whose resolved user has an admin role'' and
  fails with \<open>Unauthorized\<close> (no or invalid token) or \<open>Forbidden\<close> (valid token, no admin
  role).
\<close>

definition get_current_admin_user :: "utils \<Rightarrow> cookies \<Rightarrow> store \<Rightarrow> exception + User" where
  "get_current_admin_user u jar s =
     (case get_current_user u jar s of
        Inl e \<Rightarrow> Inl e
      | Inr user \<Rightarrow> if list_ex (is_admin_role u) (roles user) then Inr user else Inl Forbidden)"

subsection \<open>The handlers\<close>

text \<open>
  The message of a reply, by the handler that sends it (the texts are Russian in the
  source), and the replies of the router.
\<close>

datatype message =
    Registered
  | Logged_in
  | Logged_out
  | Tokens_refreshed
  | Role_added

datatype reply = Message message | Info User | Listing "User list"

definition register_user :: "SUserRegister \<Rightarrow> store \<Rightarrow> (exception + reply) \<times> store" where
  "register_user user_data s0 =
     (let session = get_session_with_commit in
      case users_find_one_or_none session (EmailModel (SUserRegister.email user_data)) s0 of
        (Some existing_user, s1) \<Rightarrow> (Inl UserAlreadyExistsException, s1)
      | (None, s1) \<Rightarrow>
          (case users_find_one_or_none session
                  (PhoneModel (SUserRegister.phone_number user_data)) s1 of
             (Some existing_phone, s2) \<Rightarrow> (Inl UserAlreadyExistsException, s2)
           | (None, s2) \<Rightarrow>
               (let user_data_dict = pop ''confirm_password'' (model_dump user_data) in
                case SUserAddDB_of user_data_dict of
                  None \<Rightarrow> (Inl ValidationError, s2)
                | Some v \<Rightarrow>
                    (case users_add session v s2 of
                       (Inr _, s3) \<Rightarrow> (Inr (Message Registered), s3)
                     | (Inl e, s3) \<Rightarrow>
                         if e = IntegrityError then (Inl UserAlreadyExistsException, s3)
                         else (Inl e, s3)))))"

definition auth_user ::
  "utils \<Rightarrow> response \<Rightarrow> SUserAuth \<Rightarrow> store \<Rightarrow> (exception + reply) \<times> response \<times> store" where
  "auth_user u response user_data s0 =
     (let session = get_session_without_commit in
      case users_find_one_or_none session (EmailModel (SUserAuth.email user_data)) s0 of
        (None, s1) \<Rightarrow> (Inl IncorrectEmailOrPasswordException, response, s1)
      | (Some user, s1) \<Rightarrow>
          if \<not> authenticate_user u user (SUserAuth.password user_data)
          then (Inl IncorrectEmailOrPasswordException, response, s1)
          else (Inr (Message Logged_in), set_tokens u response (id' user), s1))"

definition logout :: "response \<Rightarrow> reply \<times> response" where
  "logout response =
     (Message Logged_out,
      delete_cookie ''user_refresh_token'' (delete_cookie ''user_access_token'' response))"

definition get_me :: "utils \<Rightarrow> cookies \<Rightarrow> store \<Rightarrow> exception + reply" where
  "get_me u jar s =
     (case get_current_user u jar s of
        Inl e \<Rightarrow> Inl e
      | Inr user_data \<Rightarrow> Inr (Info user_data))"

definition get_all_users :: "utils \<Rightarrow> cookies \<Rightarrow> store \<Rightarrow> (exception + reply) \<times> store" where
  "get_all_users u jar s0 =
     (case get_current_admin_user u jar s0 of
        Inl e \<Rightarrow> (Inl e, s0)
      | Inr user_data \<Rightarrow>
          (case users_find_all get_session_with_commit s0 of
             (all_users, s1) \<Rightarrow> (Inr (Listing all_users), s1)))"

definition process_refresh_token ::
  "utils \<Rightarrow> cookies \<Rightarrow> response \<Rightarrow> store \<Rightarrow> (exception + reply) \<times> response" where
  "process_refresh_token u jar response s =
     (case check_refresh_token u jar s of
        Inl e \<Rightarrow> (Inl e, response)
      | Inr user \<Rightarrow> (Inr (Message Tokens_refreshed), set_tokens u response (id' user)))"

definition addroles ::
  "utils \<Rightarrow> cookies \<Rightarrow> RoleAddModel \<Rightarrow> store \<Rightarrow> (exception + reply) \<times> store" where
  "addroles u jar role_data s0 =
     (case get_current_admin_user u jar s0 of
        Inl e \<Rightarrow> (Inl e, s0)
      | Inr current_admin \<Rightarrow>
          (let session = get_session_with_commit in
           case role_find_one_or_none session (RoleAddModel (name role_data)) s0 of
             (Some role, s1) \<Rightarrow> (Inl UserAlreadyExistsException, s1)
           | (None, s1) \<Rightarrow>
               (let role_data_dict = model_dump_role role_data in
                case RoleAddModel_of role_data_dict of
                  None \<Rightarrow> (Inl ValidationError, s1)
                | Some v \<Rightarrow>
                    (case role_add session v s1 of
                       (Inr _, s2) \<Rightarrow> (Inr (Message Role_added), s2)
                     | (Inl e, s2) \<Rightarrow> (Inl e, s2)))))"

subsection \<open>The router\<close>

datatype request =
    Register SUserRegister
  | Login SUserAuth
  | Logout
  | Me
  | All_users
  | Refresh
  | Addroles RoleAddModel

text \<open>
  One request against the router: the handler of the endpoint runs on the request's
  cookies and a fresh response.
\<close>

definition router ::
  "utils \<Rightarrow> request \<Rightarrow> cookies \<Rightarrow> store \<Rightarrow> (exception + reply) \<times> response \<times> store" where
  "router u req jar s =
     (case req of
        Register user_data \<Rightarrow>
          (case register_user user_data s of (r, s') \<Rightarrow> (r, [], s'))
      | Login user_data \<Rightarrow> auth_user u [] user_data s
      | Logout \<Rightarrow> (case logout [] of (r, response) \<Rightarrow> (Inr r, response, s))
      | Me \<Rightarrow> (get_me u jar s, [], s)
      | All_users \<Rightarrow> (case get_all_users u jar s of (r, s') \<Rightarrow> (r, [], s'))
      | Refresh \<Rightarrow>
          (case process_refresh_token u jar [] s of (r, response) \<Rightarrow> (r, response, s))
      | Addroles role_data \<Rightarrow>
          (case addroles u jar role_data s of (r, s') \<Rightarrow> (r, [], s')))"

subsection \<open>A small instance\<close>

text \<open>
  Concrete collaborators and a store with two users, used to run the handlers. A password
  \<open>pw\<close> is stored as \<open>''hash of '' @ pw\<close>; the token of user \<open>i\<close> is a letter (\<open>A\<close> for
  access, \<open>R\<close> for refresh) followed by \<open>i\<close> strokes, and a token that starts with \<open>X\<close> has
  expired. \<open>root_user\<close> holds the admin role, \<open>bob_user\<close> holds none.
\<close>

definition demo_utils :: utils where
  "demo_utils =
     \<lparr>verify_password = (\<lambda>pw h. h = ''hash of '' @ pw),
      create_access_token = (\<lambda>i. ''A'' @ replicate i CHR ''1''),
      create_refresh_token = (\<lambda>i. ''R'' @ replicate i CHR ''1''),
      jwt_decode = (\<lambda>t. case t of
                        [] \<Rightarrow> Invalid_token
                      | c # cs \<Rightarrow> if c = CHR ''A'' \<or> c = CHR ''R'' then Claims (length cs)
                                  else if c = CHR ''X'' then Expired_token
                                  else Invalid_token),
      is_admin_role = (\<lambda>r. role_name r = ''admin'')\<rparr>"

definition root_user :: User where
  "root_user =
     \<lparr>id' = 1, User.email = ''root@site'', User.phone_number = ''100'',
      User.password = ''hash of secret'', roles = [Role ''admin'']\<rparr>"

definition bob_user :: User where
  "bob_user =
     \<lparr>id' = 2, User.email = ''bob@site'', User.phone_number = ''200'',
      User.password = ''hash of hunter2'', roles = []\<rparr>"

definition demo_store :: store where
  "demo_store =
     \<lparr>users = [root_user, bob_user], roles_table = [Role ''admin''], racing = [],
      calls = []\<rparr>"

subsection \<open>Notions used to state the properties\<close>

text \<open>
  The DAO calls a handler made on its way from store \<open>s\<close> to store \<open>s'\<close>, the calls that
  insert a row, and the registration data without its \<open>confirm_password\<close> field.
\<close>

definition new_calls :: "store \<Rightarrow> store \<Rightarrow> call list" where
  "new_calls s s' = drop (length (calls s)) (calls s')"

fun is_insert :: "call \<Rightarrow> bool" where
  "is_insert (Add_user sess v) = True"
| "is_insert (Add_role sess v) = True"
| "is_insert c = False"

definition without_confirm_password :: "SUserRegister \<Rightarrow> SUserAddDB" where
  "without_confirm_password user_data =
     \<lparr>SUserAddDB.email = SUserRegister.email user_data,
      SUserAddDB.phone_number = SUserRegister.phone_number user_data,
      SUserAddDB.password = SUserRegister.password user_data\<rparr>"

text \<open>
  A registration by a new user, and the row a concurrent registration with the same email
  commits between that request's lookups and its insert.
\<close>

definition eve_data :: SUserRegister where
  "eve_data =
     \<lparr>SUserRegister.email = ''eve@site'', phone_number = ''300'', password = ''hash of pw'',
      confirm_password = ''hash of pw''\<rparr>"

definition eve_racing :: User where
  "eve_racing =
     \<lparr>id' = 3, User.email = ''eve@site'', User.phone_number = ''400'',
      User.password = ''hash of other'', roles = []\<rparr>"

text \<open>The login of \<open>bob_user\<close> with the right password.\<close>

definition bob_login :: SUserAuth where
  "bob_login = \<lparr>SUserAuth.email = ''bob@site'', password = ''hunter2''\<rparr>"

section \<open>Properties\<close>

lemma model_dump_values:
  "SUserAddDB_of (pop ''confirm_password'' (model_dump user_data)) =
     Some \<lparr>SUserAddDB.email = SUserRegister.email user_data,
           SUserAddDB.phone_number = SUserRegister.phone_number user_data,
           SUserAddDB.password = SUserRegister.password user_data\<rparr>"
  by (simp add: SUserAddDB_of_def pop_def model_dump_def)

lemma find_email_None:
  "find (matches (EmailModel e)) us = None \<longleftrightarrow> e \<notin> set (map User.email us)"
  by (auto simp: find_None_iff matches_def)

lemma find_phone_None:
  "find (matches (PhoneModel p)) us = None \<longleftrightarrow> p \<notin> set (map User.phone_number us)"
  by (auto simp: find_None_iff matches_def)

lemma find_role_None:
  "find (\<lambda>r. role_name r = n) rs = None \<longleftrightarrow> n \<notin> set (map role_name rs)"
  by (auto simp: find_None_iff)

lemma find_email_Some:
  "e \<in> set (map User.email us) \<Longrightarrow> \<exists>x. find (matches (EmailModel e)) us = Some x"
  using find_email_None [of e us] by (cases "find (matches (EmailModel e)) us") auto

lemma find_phone_Some:
  "p \<in> set (map User.phone_number us) \<Longrightarrow> \<exists>x. find (matches (PhoneModel p)) us = Some x"
  using find_phone_None [of p us] by (cases "find (matches (PhoneModel p)) us") auto

lemma register_user_email_taken:
  assumes "SUserRegister.email user_data \<in> set (map User.email (users s))"
  shows "register_user user_data s =
    (Inl UserAlreadyExistsException,
     s\<lparr>calls := calls s @
        [Find_user get_session_with_commit (EmailModel (SUserRegister.email user_data))]\<rparr>)"
proof -
  from find_email_Some [OF assms] obtain x
    where "find (matches (EmailModel (SUserRegister.email user_data))) (users s) = Some x" ..
  then show ?thesis
    by (simp add: register_user_def users_find_one_or_none_def)
qed

lemma register_user_phone_taken:
  assumes "SUserRegister.email user_data \<notin> set (map User.email (users s))"
    and "SUserRegister.phone_number user_data \<in> set (map User.phone_number (users s))"
  shows "register_user user_data s =
    (Inl UserAlreadyExistsException,
     s\<lparr>calls := calls s @
        [Find_user get_session_with_commit (EmailModel (SUserRegister.email user_data)),
         Find_user get_session_with_commit
           (PhoneModel (SUserRegister.phone_number user_data))]\<rparr>)"
proof -
  have e: "find (matches (EmailModel (SUserRegister.email user_data))) (users s) = None"
    using assms(1) by (simp add: find_email_None)
  from find_phone_Some [OF assms(2)] obtain x
    where "find (matches (PhoneModel (SUserRegister.phone_number user_data))) (users s) = Some x" ..
  with e show ?thesis
    by (simp add: register_user_def users_find_one_or_none_def)
qed

lemma register_user_insert:
  assumes "SUserRegister.email user_data \<notin> set (map User.email (users s))"
    and "SUserRegister.phone_number user_data \<notin> set (map User.phone_number (users s))"
  shows "register_user user_data s =
    (case users_add get_session_with_commit
            \<lparr>SUserAddDB.email = SUserRegister.email user_data,
             SUserAddDB.phone_number = SUserRegister.phone_number user_data,
             SUserAddDB.password = SUserRegister.password user_data\<rparr>
            (s\<lparr>calls := calls s @
              [Find_user get_session_with_commit (EmailModel (SUserRegister.email user_data)),
               Find_user get_session_with_commit (PhoneModel (SUserRegister.phone_number user_data))]\<rparr>) of
       (Inr _, s3) \<Rightarrow> (Inr (Message Registered), s3)
     | (Inl e, s3) \<Rightarrow> if e = IntegrityError then (Inl UserAlreadyExistsException, s3) else (Inl e, s3))"
proof -
  have e: "find (matches (EmailModel (SUserRegister.email user_data))) (users s) = None"
    using assms(1) by (simp add: find_email_None)
  have p: "find (matches (PhoneModel (SUserRegister.phone_number user_data))) (users s) = None"
    using assms(2) by (simp add: find_phone_None)
  show ?thesis
    by (simp add: register_user_def users_find_one_or_none_def e p model_dump_values)
qed

subsection \<open>Role creation\<close>

text \<open>
  C1. A request to \<^verbatim>\<open>/addroles\<close> by an authenticated admin with the name of a role that
  is already in the store should fail with a duplicate-role error of its own. The handler
  raises \<open>UserAlreadyExistsException\<close> instead, the very exception a registration with a
  registered email ends with: here the admin \<open>root_user\<close> submits the existing role
  \<open>admin\<close>, and a registration repeats the email of \<open>bob_user\<close>.
\<close>

theorem addroles_existing_role_raises_user_exists:
  "addroles demo_utils [''user_access_token'' \<mapsto> ''A1''] (RoleAddModel ''admin'') demo_store =
     (Inl UserAlreadyExistsException,
      demo_store\<lparr>calls := [Find_role get_session_with_commit (RoleAddModel ''admin'')]\<rparr>)
   \<and> fst (register_user
          \<lparr>SUserRegister.email = ''bob@site'', phone_number = ''300'', password = ''h'',
           confirm_password = ''h''\<rparr> demo_store) = Inl UserAlreadyExistsException"
  by (simp add: addroles_def get_current_admin_user_def get_current_user_def
      resolve_token_def demo_utils_def demo_store_def root_user_def bob_user_def
      role_find_one_or_none_def register_user_def users_find_one_or_none_def matches_def)

subsection \<open>Registration\<close>

lemma new_calls_append [simp]: "new_calls s (s'\<lparr>calls := calls s @ cs\<rparr>) = cs"
  by (simp add: new_calls_def)

lemma pop_model_dump:
  "pop ''confirm_password'' (model_dump user_data) =
     [''email'' \<mapsto> SUserRegister.email user_data,
      ''phone_number'' \<mapsto> SUserRegister.phone_number user_data,
      ''password'' \<mapsto> SUserRegister.password user_data]"
  by (rule ext) (simp add: pop_def model_dump_def)

lemma users_add_calls:
  "calls (snd (users_add sess v s)) = calls s @ [Add_user sess v]"
  by (simp add: users_add_def Let_def)

lemma users_add_success:
  "fst (users_add sess v s) = Inr x \<Longrightarrow>
     users (snd (users_add sess v s)) =
       users s @ racing s @ [new_user (next_id (users s @ racing s)) v]"
  by (simp add: users_add_def Let_def split: if_splits)

text \<open>
  C2. A registration whose email is already registered fails with
  \<open>UserAlreadyExistsException\<close> (DuplicateUser) after the email lookup alone; one whose
  email is new and whose phone number is registered fails with it after the email lookup
  and then the phone lookup; on both paths the store is the one before the request with
  the lookups logged, so no insert was attempted. When both lookups find nothing and the
  insert raises \<open>IntegrityError\<close>, the handler ends with \<open>UserAlreadyExistsException\<close>, not
  with \<open>IntegrityError\<close>.
\<close>

theorem register_user_duplicate:
  "(SUserRegister.email user_data \<in> set (map User.email (users s)) \<longrightarrow>
      register_user user_data s =
        (Inl UserAlreadyExistsException,
         s\<lparr>calls := calls s @
            [Find_user get_session_with_commit (EmailModel (SUserRegister.email user_data))]\<rparr>))
   \<and> (SUserRegister.email user_data \<notin> set (map User.email (users s))
        \<and> SUserRegister.phone_number user_data \<in> set (map User.phone_number (users s)) \<longrightarrow>
      register_user user_data s =
        (Inl UserAlreadyExistsException,
         s\<lparr>calls := calls s @
            [Find_user get_session_with_commit (EmailModel (SUserRegister.email user_data)),
             Find_user get_session_with_commit
               (PhoneModel (SUserRegister.phone_number user_data))]\<rparr>))
   \<and> (SUserRegister.email user_data \<notin> set (map User.email (users s))
        \<and> SUserRegister.phone_number user_data \<notin> set (map User.phone_number (users s))
        \<and> fst (users_add get_session_with_commit (without_confirm_password user_data)
                 (s\<lparr>calls := calls s @
                    [Find_user get_session_with_commit
                       (EmailModel (SUserRegister.email user_data)),
                     Find_user get_session_with_commit
                       (PhoneModel (SUserRegister.phone_number user_data))]\<rparr>))
            = Inl IntegrityError \<longrightarrow>
      fst (register_user user_data s) = Inl UserAlreadyExistsException)"
proof (intro conjI impI)
  assume "SUserRegister.email user_data \<in> set (map User.email (users s))"
  then show "register_user user_data s =
        (Inl UserAlreadyExistsException,
         s\<lparr>calls := calls s @
            [Find_user get_session_with_commit (EmailModel (SUserRegister.email user_data))]\<rparr>)"
    by (rule register_user_email_taken)
next
  assume "SUserRegister.email user_data \<notin> set (map User.email (users s))
        \<and> SUserRegister.phone_number user_data \<in> set (map User.phone_number (users s))"
  then show "register_user user_data s =
        (Inl UserAlreadyExistsException,
         s\<lparr>calls := calls s @
            [Find_user get_session_with_commit (EmailModel (SUserRegister.email user_data)),
             Find_user get_session_with_commit
               (PhoneModel (SUserRegister.phone_number user_data))]\<rparr>)"
    by (simp add: register_user_phone_taken)
next
  assume a: "SUserRegister.email user_data \<notin> set (map User.email (users s))
        \<and> SUserRegister.phone_number user_data \<notin> set (map User.phone_number (users s))
        \<and> fst (users_add get_session_with_commit (without_confirm_password user_data)
                 (s\<lparr>calls := calls s @
                    [Find_user get_session_with_commit
                       (EmailModel (SUserRegister.email user_data)),
                     Find_user get_session_with_commit
                       (PhoneModel (SUserRegister.phone_number user_data))]\<rparr>))
            = Inl IntegrityError"
  then have "register_user user_data s =
    (case users_add get_session_with_commit (without_confirm_password user_data)
            (s\<lparr>calls := calls s @
              [Find_user get_session_with_commit (EmailModel (SUserRegister.email user_data)),
               Find_user get_session_with_commit (PhoneModel (SUserRegister.phone_number user_data))]\<rparr>) of
       (Inr _, s3) \<Rightarrow> (Inr (Message Registered), s3)
     | (Inl e, s3) \<Rightarrow> if e = IntegrityError then (Inl UserAlreadyExistsException, s3) else (Inl e, s3))"
    by (simp add: register_user_insert without_confirm_password_def)
  with a show "fst (register_user user_data s) = Inl UserAlreadyExistsException"
    by (auto split: prod.splits sum.splits)
qed

theorem register_user_duplicate_witness:
  "''bob@site'' \<in> set (map User.email (users demo_store))
   \<and> register_user (eve_data\<lparr>SUserRegister.email := ''bob@site''\<rparr>) demo_store =
       (Inl UserAlreadyExistsException,
        demo_store\<lparr>calls := [Find_user get_session_with_commit (EmailModel ''bob@site'')]\<rparr>)
   \<and> ''eve@site'' \<notin> set (map User.email (users demo_store))
   \<and> ''200'' \<in> set (map User.phone_number (users demo_store))
   \<and> register_user (eve_data\<lparr>SUserRegister.phone_number := ''200''\<rparr>) demo_store =
       (Inl UserAlreadyExistsException,
        demo_store\<lparr>calls := [Find_user get_session_with_commit (EmailModel ''eve@site''),
                              Find_user get_session_with_commit (PhoneModel ''200'')]\<rparr>)
   \<and> ''300'' \<notin> set (map User.phone_number (users demo_store))
   \<and> fst (users_add get_session_with_commit (without_confirm_password eve_data)
            (demo_store\<lparr>racing := [eve_racing],
                        calls := [Find_user get_session_with_commit (EmailModel ''eve@site''),
                                  Find_user get_session_with_commit (PhoneModel ''300'')]\<rparr>))
       = Inl IntegrityError
   \<and> fst (register_user eve_data (demo_store\<lparr>racing := [eve_racing]\<rparr>))
       = Inl UserAlreadyExistsException"
  using register_user_duplicate [of "eve_data\<lparr>SUserRegister.email := ''bob@site''\<rparr>" demo_store]
    register_user_duplicate [of "eve_data\<lparr>SUserRegister.phone_number := ''200''\<rparr>" demo_store]
    register_user_duplicate [of eve_data "demo_store\<lparr>racing := [eve_racing]\<rparr>"]
  by (simp add: demo_store_def root_user_def bob_user_def eve_data_def eve_racing_def
      users_add_def without_confirm_password_def)

text \<open>
  C10. A registration that fails at a duplicate pre-check leaves the user table, the role
  table and the rows of concurrent requests as they were, and none of the DAO calls it
  made is an insert. When the email lookup finds a user, that lookup is the only DAO
  call of the request: the phone lookup is not made.
\<close>

theorem register_user_precheck_failure:
  "(SUserRegister.email user_data \<in> set (map User.email (users s))
      \<or> SUserRegister.phone_number user_data \<in> set (map User.phone_number (users s)) \<longrightarrow>
      fst (register_user user_data s) = Inl UserAlreadyExistsException
      \<and> users (snd (register_user user_data s)) = users s
      \<and> roles_table (snd (register_user user_data s)) = roles_table s
      \<and> racing (snd (register_user user_data s)) = racing s
      \<and> \<not> list_ex is_insert (new_calls s (snd (register_user user_data s))))
   \<and> (SUserRegister.email user_data \<in> set (map User.email (users s)) \<longrightarrow>
      new_calls s (snd (register_user user_data s)) =
        [Find_user get_session_with_commit (EmailModel (SUserRegister.email user_data))])"
proof -
  have short: "new_calls s (snd (register_user user_data s)) =
        [Find_user get_session_with_commit (EmailModel (SUserRegister.email user_data))]"
    if e: "SUserRegister.email user_data \<in> set (map User.email (users s))"
    by (simp add: register_user_email_taken [OF e])
  have unchanged: "fst (register_user user_data s) = Inl UserAlreadyExistsException
      \<and> users (snd (register_user user_data s)) = users s
      \<and> roles_table (snd (register_user user_data s)) = roles_table s
      \<and> racing (snd (register_user user_data s)) = racing s
      \<and> \<not> list_ex is_insert (new_calls s (snd (register_user user_data s)))"
    if d: "SUserRegister.email user_data \<in> set (map User.email (users s))
      \<or> SUserRegister.phone_number user_data \<in> set (map User.phone_number (users s))"
  proof (cases "SUserRegister.email user_data \<in> set (map User.email (users s))")
    case True
    then show ?thesis
      by (simp add: register_user_email_taken)
  next
    case False
    with d have "SUserRegister.phone_number user_data \<in> set (map User.phone_number (users s))"
      by simp
    with False show ?thesis
      by (simp add: register_user_phone_taken)
  qed
  from short unchanged show ?thesis
    by blast
qed

theorem register_user_precheck_failure_witness:
  "''bob@site'' \<in> set (map User.email (users demo_store))
   \<and> fst (register_user (eve_data\<lparr>SUserRegister.email := ''bob@site'',
                                   SUserRegister.phone_number := ''200''\<rparr>) demo_store)
       = Inl UserAlreadyExistsException
   \<and> users (snd (register_user (eve_data\<lparr>SUserRegister.email := ''bob@site'',
                                   SUserRegister.phone_number := ''200''\<rparr>) demo_store))
       = [root_user, bob_user]
   \<and> new_calls demo_store
        (snd (register_user (eve_data\<lparr>SUserRegister.email := ''bob@site'',
                                   SUserRegister.phone_number := ''200''\<rparr>) demo_store))
       = [Find_user get_session_with_commit (EmailModel ''bob@site'')]
   \<and> ''200'' \<in> set (map User.phone_number (users demo_store))
   \<and> users (snd (register_user (eve_data\<lparr>SUserRegister.phone_number := ''200''\<rparr>) demo_store))
       = [root_user, bob_user]
   \<and> \<not> list_ex is_insert
        (new_calls demo_store
          (snd (register_user (eve_data\<lparr>SUserRegister.phone_number := ''200''\<rparr>) demo_store)))"
  using register_user_precheck_failure
      [of "eve_data\<lparr>SUserRegister.email := ''bob@site'',
                     SUserRegister.phone_number := ''200''\<rparr>" demo_store]
    register_user_precheck_failure
      [of "eve_data\<lparr>SUserRegister.phone_number := ''200''\<rparr>" demo_store]
  by (simp add: demo_store_def root_user_def bob_user_def eve_data_def)

text \<open>
  C4. In a successful registration the DAO calls are the two lookups and one insert, and
  the values passed to the insert are the submitted email, phone number and password:
  the dictionary they are built from is the dumped registration without its
  \<open>confirm_password\<close> key. The row the store gains is built from those values.
\<close>

theorem register_user_drops_confirm_password:
  "fst (register_user user_data s) = Inr r \<longrightarrow>
     new_calls s (snd (register_user user_data s)) =
       [Find_user get_session_with_commit (EmailModel (SUserRegister.email user_data)),
        Find_user get_session_with_commit (PhoneModel (SUserRegister.phone_number user_data)),
        Add_user get_session_with_commit (without_confirm_password user_data)]
     \<and> SUserAddDB_of (pop ''confirm_password'' (model_dump user_data)) =
         Some (without_confirm_password user_data)
     \<and> pop ''confirm_password'' (model_dump user_data) =
         [''email'' \<mapsto> SUserRegister.email user_data,
          ''phone_number'' \<mapsto> SUserRegister.phone_number user_data,
          ''password'' \<mapsto> SUserRegister.password user_data]
     \<and> users (snd (register_user user_data s)) =
         users s @ racing s @
           [new_user (next_id (users s @ racing s)) (without_confirm_password user_data)]"
proof
  assume ok: "fst (register_user user_data s) = Inr r"
  have e: "SUserRegister.email user_data \<notin> set (map User.email (users s))"
  proof
    assume "SUserRegister.email user_data \<in> set (map User.email (users s))"
    from register_user_email_taken [OF this] ok show False by simp
  qed
  have p: "SUserRegister.phone_number user_data \<notin> set (map User.phone_number (users s))"
  proof
    assume "SUserRegister.phone_number user_data \<in> set (map User.phone_number (users s))"
    from register_user_phone_taken [OF e this] ok show False by simp
  qed
  let ?s2 = "s\<lparr>calls := calls s @
              [Find_user get_session_with_commit (EmailModel (SUserRegister.email user_data)),
               Find_user get_session_with_commit (PhoneModel (SUserRegister.phone_number user_data))]\<rparr>"
  let ?a = "users_add get_session_with_commit (without_confirm_password user_data) ?s2"
  have reg: "register_user user_data s =
    (case ?a of
       (Inr _, s3) \<Rightarrow> (Inr (Message Registered), s3)
     | (Inl e, s3) \<Rightarrow> if e = IntegrityError then (Inl UserAlreadyExistsException, s3) else (Inl e, s3))"
    using register_user_insert [OF e p] by (simp add: without_confirm_password_def)
  from ok reg obtain x where a: "fst ?a = Inr x" and sn: "snd (register_user user_data s) = snd ?a"
    by (cases ?a) (auto split: sum.splits if_splits)
  have c: "new_calls s (snd (register_user user_data s)) =
       [Find_user get_session_with_commit (EmailModel (SUserRegister.email user_data)),
        Find_user get_session_with_commit (PhoneModel (SUserRegister.phone_number user_data)),
        Add_user get_session_with_commit (without_confirm_password user_data)]"
    by (simp add: sn new_calls_def users_add_calls)
  have u: "users (snd (register_user user_data s)) =
         users s @ racing s @
           [new_user (next_id (users s @ racing s)) (without_confirm_password user_data)]"
    using users_add_success [OF a] by (simp add: sn)
  have v: "SUserAddDB_of (pop ''confirm_password'' (model_dump user_data)) =
         Some (without_confirm_password user_data)"
    by (simp add: model_dump_values without_confirm_password_def)
  from c u v pop_model_dump [of user_data]
  show "new_calls s (snd (register_user user_data s)) =
       [Find_user get_session_with_commit (EmailModel (SUserRegister.email user_data)),
        Find_user get_session_with_commit (PhoneModel (SUserRegister.phone_number user_data)),
        Add_user get_session_with_commit (without_confirm_password user_data)]
     \<and> SUserAddDB_of (pop ''confirm_password'' (model_dump user_data)) =
         Some (without_confirm_password user_data)
     \<and> pop ''confirm_password'' (model_dump user_data) =
         [''email'' \<mapsto> SUserRegister.email user_data,
          ''phone_number'' \<mapsto> SUserRegister.phone_number user_data,
          ''password'' \<mapsto> SUserRegister.password user_data]
     \<and> users (snd (register_user user_data s)) =
         users s @ racing s @
           [new_user (next_id (users s @ racing s)) (without_confirm_password user_data)]"
    by blast
qed

theorem register_user_drops_confirm_password_witness:
  "fst (register_user eve_data demo_store) = Inr (Message Registered)
   \<and> new_calls demo_store (snd (register_user eve_data demo_store)) =
       [Find_user get_session_with_commit (EmailModel ''eve@site''),
        Find_user get_session_with_commit (PhoneModel ''300''),
        Add_user get_session_with_commit
          \<lparr>SUserAddDB.email = ''eve@site'', SUserAddDB.phone_number = ''300'',
           SUserAddDB.password = ''hash of pw''\<rparr>]
   \<and> users (snd (register_user eve_data demo_store)) =
       [root_user, bob_user,
        \<lparr>id' = 3, User.email = ''eve@site'', User.phone_number = ''300'',
         User.password = ''hash of pw'', roles = []\<rparr>]"
proof -
  have ok: "fst (register_user eve_data demo_store) = Inr (Message Registered)"
    by (simp add: register_user_def users_find_one_or_none_def users_add_def matches_def
        SUserAddDB_of_def pop_def model_dump_def demo_store_def root_user_def bob_user_def
        eve_data_def Let_def)
  from ok register_user_drops_confirm_password [of eve_data demo_store "Message Registered"]
  show ?thesis
    by (simp add: without_confirm_password_def eve_data_def demo_store_def new_user_def
        next_id_def root_user_def bob_user_def)
qed

subsection \<open>Login\<close>

lemma auth_user_result:
  "fst (auth_user u response user_data s) =
     (case find (matches (EmailModel (SUserAuth.email user_data))) (users s) of
        None \<Rightarrow> Inl IncorrectEmailOrPasswordException
      | Some user \<Rightarrow>
          if verify_password u (SUserAuth.password user_data) (User.password user)
          then Inr (Message Logged_in)
          else Inl IncorrectEmailOrPasswordException)"
  by (simp add: auth_user_def users_find_one_or_none_def authenticate_user_def
      split: option.splits)

lemma auth_user_response:
  "fst (auth_user u response user_data s) = Inl e \<Longrightarrow>
     fst (snd (auth_user u response user_data s)) = response"
  by (simp add: auth_user_def users_find_one_or_none_def split: option.splits if_splits)

text \<open>
  C3. A login with an email no user has and a login with a registered email and a
  password that does not verify against that user's stored hash end with the same
  exception, \<open>IncorrectEmailOrPasswordException\<close> (InvalidCredentials), and with the
  same response, the one the handler was given: no cookie is set. A login succeeds
  exactly when the email lookup finds a user and the password verifies against that
  user's stored hash, and every failed login ends with that one exception.
\<close>

theorem auth_user_invalid_credentials:
  "(SUserAuth.email absent \<notin> set (map User.email (users s))
      \<and> find (matches (EmailModel (SUserAuth.email wrong))) (users s) = Some user
      \<and> \<not> verify_password u (SUserAuth.password wrong) (User.password user) \<longrightarrow>
      fst (auth_user u response absent s) = Inl IncorrectEmailOrPasswordException
      \<and> fst (auth_user u response wrong s) = fst (auth_user u response absent s)
      \<and> fst (snd (auth_user u response wrong s)) = fst (snd (auth_user u response absent s))
      \<and> fst (snd (auth_user u response absent s)) = response)
   \<and> (fst (auth_user u response user_data s) = Inr r \<longleftrightarrow>
        r = Message Logged_in
        \<and> (\<exists>x. find (matches (EmailModel (SUserAuth.email user_data))) (users s) = Some x
              \<and> verify_password u (SUserAuth.password user_data) (User.password x)))
   \<and> (fst (auth_user u response user_data s) = Inl e \<longleftrightarrow>
        e = IncorrectEmailOrPasswordException
        \<and> \<not> (\<exists>x. find (matches (EmailModel (SUserAuth.email user_data))) (users s) = Some x
              \<and> verify_password u (SUserAuth.password user_data) (User.password x)))"
proof -
  have two: "fst (auth_user u response absent s) = Inl IncorrectEmailOrPasswordException
      \<and> fst (auth_user u response wrong s) = fst (auth_user u response absent s)
      \<and> fst (snd (auth_user u response wrong s)) = fst (snd (auth_user u response absent s))
      \<and> fst (snd (auth_user u response absent s)) = response"
    if a: "SUserAuth.email absent \<notin> set (map User.email (users s))"
      and w: "find (matches (EmailModel (SUserAuth.email wrong))) (users s) = Some user"
      and v: "\<not> verify_password u (SUserAuth.password wrong) (User.password user)"
  proof -
    from a have "find (matches (EmailModel (SUserAuth.email absent))) (users s) = None"
      by (simp add: find_email_None)
    then have fa: "fst (auth_user u response absent s) = Inl IncorrectEmailOrPasswordException"
      by (simp add: auth_user_result)
    from w v have fw: "fst (auth_user u response wrong s) = Inl IncorrectEmailOrPasswordException"
      by (simp add: auth_user_result)
    from fa fw auth_user_response [OF fa] auth_user_response [OF fw] show ?thesis
      by simp
  qed
  have ok: "fst (auth_user u response user_data s) = Inr r \<longleftrightarrow>
        r = Message Logged_in
        \<and> (\<exists>x. find (matches (EmailModel (SUserAuth.email user_data))) (users s) = Some x
              \<and> verify_password u (SUserAuth.password user_data) (User.password x))"
    by (auto simp: auth_user_result split: option.splits)
  have bad: "fst (auth_user u response user_data s) = Inl e \<longleftrightarrow>
        e = IncorrectEmailOrPasswordException
        \<and> \<not> (\<exists>x. find (matches (EmailModel (SUserAuth.email user_data))) (users s) = Some x
              \<and> verify_password u (SUserAuth.password user_data) (User.password x))"
    by (auto simp: auth_user_result split: option.splits)
  from two ok bad show ?thesis
    by blast
qed

theorem auth_user_invalid_credentials_witness:
  "''nobody@site'' \<notin> set (map User.email (users demo_store))
   \<and> find (matches (EmailModel ''bob@site'')) (users demo_store) = Some bob_user
   \<and> \<not> verify_password demo_utils ''hunter3'' (User.password bob_user)
   \<and> fst (auth_user demo_utils [] (bob_login\<lparr>SUserAuth.email := ''nobody@site''\<rparr>) demo_store)
       = Inl IncorrectEmailOrPasswordException
   \<and> fst (auth_user demo_utils [] (bob_login\<lparr>SUserAuth.password := ''hunter3''\<rparr>) demo_store)
       = Inl IncorrectEmailOrPasswordException
   \<and> fst (snd (auth_user demo_utils [] (bob_login\<lparr>SUserAuth.password := ''hunter3''\<rparr>) demo_store))
       = []
   \<and> fst (auth_user demo_utils [] bob_login demo_store) = Inr (Message Logged_in)"
proof -
  have h: "''nobody@site'' \<notin> set (map User.email (users demo_store))
     \<and> find (matches (EmailModel ''bob@site'')) (users demo_store) = Some bob_user
     \<and> \<not> verify_password demo_utils ''hunter3'' (User.password bob_user)
     \<and> verify_password demo_utils ''hunter2'' (User.password bob_user)"
    by (simp add: demo_store_def demo_utils_def root_user_def bob_user_def matches_def)
  from h
    auth_user_invalid_credentials
      [of "bob_login\<lparr>SUserAuth.email := ''nobody@site''\<rparr>" demo_store
          "bob_login\<lparr>SUserAuth.password := ''hunter3''\<rparr>" bob_user demo_utils "[]"
          bob_login "Message Logged_in" IncorrectEmailOrPasswordException]
  show ?thesis
    by (simp add: bob_login_def)
qed

text \<open>
  C9. Whether a login succeeds or fails, the store after it is the store before it with
  one DAO call logged: the lookup by the submitted email, made through the session of
  \<open>get_session_without_commit\<close>. The user table, the role table and the rows of
  concurrent requests are unchanged, and no insert is made.
\<close>

theorem auth_user_reads_only:
  "snd (snd (auth_user u response user_data s)) =
     s\<lparr>calls := calls s @
        [Find_user get_session_without_commit (EmailModel (SUserAuth.email user_data))]\<rparr>
   \<and> users (snd (snd (auth_user u response user_data s))) = users s
   \<and> roles_table (snd (snd (auth_user u response user_data s))) = roles_table s
   \<and> racing (snd (snd (auth_user u response user_data s))) = racing s
   \<and> new_calls s (snd (snd (auth_user u response user_data s))) =
       [Find_user get_session_without_commit (EmailModel (SUserAuth.email user_data))]
   \<and> \<not> list_ex is_insert (new_calls s (snd (snd (auth_user u response user_data s))))"
proof -
  have "snd (snd (auth_user u response user_data s)) =
     s\<lparr>calls := calls s @
        [Find_user get_session_without_commit (EmailModel (SUserAuth.email user_data))]\<rparr>"
    by (simp add: auth_user_def users_find_one_or_none_def split: option.splits)
  then show ?thesis
    by simp
qed

theorem auth_user_reads_only_witness:
  "snd (snd (auth_user demo_utils [] bob_login demo_store)) =
     demo_store\<lparr>calls := [Find_user get_session_without_commit (EmailModel ''bob@site'')]\<rparr>
   \<and> fst (auth_user demo_utils [] bob_login demo_store) = Inr (Message Logged_in)
   \<and> snd (snd (auth_user demo_utils [] (bob_login\<lparr>SUserAuth.password := ''hunter3''\<rparr>)
        demo_store)) =
     demo_store\<lparr>calls := [Find_user get_session_without_commit (EmailModel ''bob@site'')]\<rparr>
   \<and> fst (auth_user demo_utils [] (bob_login\<lparr>SUserAuth.password := ''hunter3''\<rparr>) demo_store)
       = Inl IncorrectEmailOrPasswordException"
  using auth_user_reads_only [of demo_utils "[]" bob_login demo_store]
    auth_user_reads_only [of demo_utils "[]" "bob_login\<lparr>SUserAuth.password := ''hunter3''\<rparr>"
      demo_store]
  by (simp add: auth_user_result bob_login_def demo_store_def demo_utils_def root_user_def
      bob_user_def matches_def)

subsection \<open>Logout\<close>

text \<open>
  C7. A logout appends to its response the deletion of the cookie \<open>user_access_token\<close>
  and then of the cookie \<open>user_refresh_token\<close>, and nothing else, and replies with its
  message. Through the router this holds for every cookie jar and every store: the
  request never ends with an exception, the store is returned as it was, and the client
  is left with its cookies but those two.
\<close>

theorem logout_clears_both_cookies:
  "logout response =
     (Message Logged_out,
      response @ [Delete_cookie ''user_access_token'', Delete_cookie ''user_refresh_token''])
   \<and> router u Logout jar s =
     (Inr (Message Logged_out),
      [Delete_cookie ''user_access_token'', Delete_cookie ''user_refresh_token''], s)
   \<and> client_cookies (fst (snd (router u Logout jar s))) jar =
       jar(''user_access_token'' := None, ''user_refresh_token'' := None)"
  by (simp add: logout_def delete_cookie_def router_def)

theorem logout_clears_both_cookies_witness:
  "router demo_utils Logout [''user_access_token'' \<mapsto> ''A11'', ''theme'' \<mapsto> ''dark'']
     demo_store =
     (Inr (Message Logged_out),
      [Delete_cookie ''user_access_token'', Delete_cookie ''user_refresh_token''], demo_store)
   \<and> client_cookies
        (fst (snd (router demo_utils Logout
           [''user_access_token'' \<mapsto> ''A11'', ''theme'' \<mapsto> ''dark''] demo_store)))
        [''user_access_token'' \<mapsto> ''A11'', ''theme'' \<mapsto> ''dark''] ''theme'' = Some ''dark''
   \<and> client_cookies
        (fst (snd (router demo_utils Logout
           [''user_access_token'' \<mapsto> ''A11'', ''theme'' \<mapsto> ''dark''] demo_store)))
        [''user_access_token'' \<mapsto> ''A11'', ''theme'' \<mapsto> ''dark''] ''user_access_token'' = None
   \<and> router demo_utils Logout Map.empty demo_store =
     (Inr (Message Logged_out),
      [Delete_cookie ''user_access_token'', Delete_cookie ''user_refresh_token''], demo_store)"
  using logout_clears_both_cookies
      [of "[]" demo_utils "[''user_access_token'' \<mapsto> ''A11'', ''theme'' \<mapsto> ''dark'']"
        demo_store]
    logout_clears_both_cookies [of "[]" demo_utils Map.empty demo_store]
  by simp

subsection \<open>Token validation: refresh and the admin listing\<close>

lemma resolve_token_valid:
  "jar key = Some token \<Longrightarrow> jwt_decode u token = Claims user_id \<Longrightarrow>
   find (\<lambda>x. id' x = user_id) (users s) = Some user \<Longrightarrow>
   resolve_token u key jar s = Inr user"
  by (simp add: resolve_token_def)

lemma resolve_token_rejected:
  "jar key = None
   \<or> (\<exists>token. jar key = Some token
        \<and> (jwt_decode u token = Invalid_token \<or> jwt_decode u token = Expired_token
           \<or> (\<exists>user_id. jwt_decode u token = Claims user_id
                 \<and> find (\<lambda>x. id' x = user_id) (users s) = None))) \<Longrightarrow>
   resolve_token u key jar s = Inl Unauthorized"
  by (auto simp: resolve_token_def)

text \<open>
  C5. When the cookie \<open>user_refresh_token\<close> holds a token that decodes (signature and
  expiry) to the id of a user of the store, a refresh succeeds and sets the two token
  cookies to a new access token and a new refresh token for that user, overwriting the
  client's. When the cookie is missing, or its token is invalid or expired or names no
  user, the refresh ends with \<open>Unauthorized\<close>, the response carries no cookie header and
  the client's cookies stay as they were. The store is untouched either way.
\<close>

theorem process_refresh_token_rotates_or_rejects:
  "(jar ''user_refresh_token'' = Some token \<and> jwt_decode u token = Claims user_id
      \<and> find (\<lambda>x. id' x = user_id) (users s) = Some user \<longrightarrow>
      process_refresh_token u jar response s =
        (Inr (Message Tokens_refreshed),
         response @ [Set_cookie ''user_access_token'' (create_access_token u (id' user)),
                     Set_cookie ''user_refresh_token'' (create_refresh_token u (id' user))])
      \<and> router u Refresh jar s =
        (Inr (Message Tokens_refreshed),
         [Set_cookie ''user_access_token'' (create_access_token u (id' user)),
          Set_cookie ''user_refresh_token'' (create_refresh_token u (id' user))], s)
      \<and> client_cookies (fst (snd (router u Refresh jar s))) jar =
          jar(''user_access_token'' \<mapsto> create_access_token u (id' user),
              ''user_refresh_token'' \<mapsto> create_refresh_token u (id' user)))
   \<and> (jar ''user_refresh_token'' = None
       \<or> (\<exists>t. jar ''user_refresh_token'' = Some t
            \<and> (jwt_decode u t = Invalid_token \<or> jwt_decode u t = Expired_token
               \<or> (\<exists>i. jwt_decode u t = Claims i
                     \<and> find (\<lambda>x. id' x = i) (users s) = None))) \<longrightarrow>
      process_refresh_token u jar response s = (Inl Unauthorized, response)
      \<and> router u Refresh jar s = (Inl Unauthorized, [], s)
      \<and> client_cookies (fst (snd (router u Refresh jar s))) jar = jar)"
proof -
  have good: "process_refresh_token u jar response s =
        (Inr (Message Tokens_refreshed),
         response @ [Set_cookie ''user_access_token'' (create_access_token u (id' user)),
                     Set_cookie ''user_refresh_token'' (create_refresh_token u (id' user))])"
    if "jar ''user_refresh_token'' = Some token" and "jwt_decode u token = Claims user_id"
      and "find (\<lambda>x. id' x = user_id) (users s) = Some user" for response
    using that resolve_token_valid [of jar "''user_refresh_token''" token u user_id s user]
    by (simp add: process_refresh_token_def check_refresh_token_def set_tokens_def
        set_cookie_def)
  have bad: "process_refresh_token u jar response s = (Inl Unauthorized, response)"
    if "jar ''user_refresh_token'' = None
       \<or> (\<exists>t. jar ''user_refresh_token'' = Some t
            \<and> (jwt_decode u t = Invalid_token \<or> jwt_decode u t = Expired_token
               \<or> (\<exists>i. jwt_decode u t = Claims i
                     \<and> find (\<lambda>x. id' x = i) (users s) = None)))" for response
    using that resolve_token_rejected [of jar "''user_refresh_token''" u s]
    by (simp add: process_refresh_token_def check_refresh_token_def)
  show ?thesis
  proof (rule conjI; rule impI)
    assume "jar ''user_refresh_token'' = Some token \<and> jwt_decode u token = Claims user_id
      \<and> find (\<lambda>x. id' x = user_id) (users s) = Some user"
    then have g: "\<And>response. process_refresh_token u jar response s =
        (Inr (Message Tokens_refreshed),
         response @ [Set_cookie ''user_access_token'' (create_access_token u (id' user)),
                     Set_cookie ''user_refresh_token'' (create_refresh_token u (id' user))])"
      using good by blast
    show "process_refresh_token u jar response s =
        (Inr (Message Tokens_refreshed),
         response @ [Set_cookie ''user_access_token'' (create_access_token u (id' user)),
                     Set_cookie ''user_refresh_token'' (create_refresh_token u (id' user))])
      \<and> router u Refresh jar s =
        (Inr (Message Tokens_refreshed),
         [Set_cookie ''user_access_token'' (create_access_token u (id' user)),
          Set_cookie ''user_refresh_token'' (create_refresh_token u (id' user))], s)
      \<and> client_cookies (fst (snd (router u Refresh jar s))) jar =
          jar(''user_access_token'' \<mapsto> create_access_token u (id' user),
              ''user_refresh_token'' \<mapsto> create_refresh_token u (id' user))"
      by (simp add: g router_def)
  next
    assume "jar ''user_refresh_token'' = None
       \<or> (\<exists>t. jar ''user_refresh_token'' = Some t
            \<and> (jwt_decode u t = Invalid_token \<or> jwt_decode u t = Expired_token
               \<or> (\<exists>i. jwt_decode u t = Claims i
                     \<and> find (\<lambda>x. id' x = i) (users s) = None)))"
    then have b: "\<And>response. process_refresh_token u jar response s = (Inl Unauthorized, response)"
      using bad by blast
    show "process_refresh_token u jar response s = (Inl Unauthorized, response)
      \<and> router u Refresh jar s = (Inl Unauthorized, [], s)
      \<and> client_cookies (fst (snd (router u Refresh jar s))) jar = jar"
      by (simp add: b router_def)
  qed
qed

theorem process_refresh_token_rotates_or_rejects_witness:
  "[''user_refresh_token'' \<mapsto> ''R11''] ''user_refresh_token'' = Some ''R11''
   \<and> jwt_decode demo_utils ''R11'' = Claims 2
   \<and> find (\<lambda>x. id' x = 2) (users demo_store) = Some bob_user
   \<and> router demo_utils Refresh [''user_refresh_token'' \<mapsto> ''R11''] demo_store =
       (Inr (Message Tokens_refreshed),
        [Set_cookie ''user_access_token'' ''A11'', Set_cookie ''user_refresh_token'' ''R11''],
        demo_store)
   \<and> jwt_decode demo_utils ''X11'' = Expired_token
   \<and> router demo_utils Refresh [''user_refresh_token'' \<mapsto> ''X11''] demo_store =
       (Inl Unauthorized, [], demo_store)
   \<and> router demo_utils Refresh Map.empty demo_store = (Inl Unauthorized, [], demo_store)"
proof -
  have h: "[''user_refresh_token'' \<mapsto> ''R11''] ''user_refresh_token'' = Some ''R11''
     \<and> jwt_decode demo_utils ''R11'' = Claims 2
     \<and> find (\<lambda>x. id' x = 2) (users demo_store) = Some bob_user
     \<and> jwt_decode demo_utils ''X11'' = Expired_token
     \<and> create_access_token demo_utils (id' bob_user) = ''A11''
     \<and> create_refresh_token demo_utils (id' bob_user) = ''R11''"
    by (simp add: demo_utils_def demo_store_def root_user_def bob_user_def numeral_2_eq_2)
  from h
    process_refresh_token_rotates_or_rejects
      [of "[''user_refresh_token'' \<mapsto> ''R11'']" "''R11''" demo_utils 2 demo_store bob_user "[]"]
    process_refresh_token_rotates_or_rejects
      [of "[''user_refresh_token'' \<mapsto> ''X11'']" "''X11''" demo_utils 2 demo_store bob_user "[]"]
    process_refresh_token_rotates_or_rejects
      [of Map.empty "''R11''" demo_utils 2 demo_store bob_user "[]"]
  show ?thesis
    by simp
qed

text \<open>
  C6. The listing of all users ends with \<open>Unauthorized\<close> when the cookie
  \<open>user_access_token\<close> is missing or its token is invalid or expired or names no user.
  When the token resolves to a user, the request ends with \<open>Forbidden\<close>, and so not with
  \<open>Unauthorized\<close>, if none of the user's roles is an admin role, and replies with all
  users of the store otherwise.
\<close>

theorem get_all_users_authorization:
  "(jar ''user_access_token'' = None
      \<or> (\<exists>t. jar ''user_access_token'' = Some t
           \<and> (jwt_decode u t = Invalid_token \<or> jwt_decode u t = Expired_token
              \<or> (\<exists>i. jwt_decode u t = Claims i
                    \<and> find (\<lambda>x. id' x = i) (users s) = None))) \<longrightarrow>
      get_all_users u jar s = (Inl Unauthorized, s))
   \<and> (jar ''user_access_token'' = Some token \<and> jwt_decode u token = Claims user_id
       \<and> find (\<lambda>x. id' x = user_id) (users s) = Some user \<longrightarrow>
      get_all_users u jar s =
        (if list_ex (is_admin_role u) (roles user)
         then (Inr (Listing (users s)),
               s\<lparr>calls := calls s @ [Find_all_users get_session_with_commit]\<rparr>)
         else (Inl Forbidden, s))
      \<and> fst (get_all_users u jar s) \<noteq> Inl Unauthorized)"
proof -
  have bad: "get_all_users u jar s = (Inl Unauthorized, s)"
    if "jar ''user_access_token'' = None
      \<or> (\<exists>t. jar ''user_access_token'' = Some t
           \<and> (jwt_decode u t = Invalid_token \<or> jwt_decode u t = Expired_token
              \<or> (\<exists>i. jwt_decode u t = Claims i
                    \<and> find (\<lambda>x. id' x = i) (users s) = None)))"
    using that resolve_token_rejected [of jar "''user_access_token''" u s]
    by (simp add: get_all_users_def get_current_admin_user_def get_current_user_def)
  have good: "get_all_users u jar s =
        (if list_ex (is_admin_role u) (roles user)
         then (Inr (Listing (users s)),
               s\<lparr>calls := calls s @ [Find_all_users get_session_with_commit]\<rparr>)
         else (Inl Forbidden, s))"
    if "jar ''user_access_token'' = Some token" and "jwt_decode u token = Claims user_id"
      and "find (\<lambda>x. id' x = user_id) (users s) = Some user"
    using that resolve_token_valid [of jar "''user_access_token''" token u user_id s user]
    by (simp add: get_all_users_def get_current_admin_user_def get_current_user_def
        users_find_all_def)
  from bad good show ?thesis
    by auto
qed

theorem get_all_users_authorization_witness:
  "get_all_users demo_utils Map.empty demo_store = (Inl Unauthorized, demo_store)
   \<and> get_all_users demo_utils [''user_access_token'' \<mapsto> ''X1''] demo_store =
       (Inl Unauthorized, demo_store)
   \<and> jwt_decode demo_utils ''A11'' = Claims 2
   \<and> find (\<lambda>x. id' x = 2) (users demo_store) = Some bob_user
   \<and> \<not> list_ex (is_admin_role demo_utils) (roles bob_user)
   \<and> get_all_users demo_utils [''user_access_token'' \<mapsto> ''A11''] demo_store =
       (Inl Forbidden, demo_store)
   \<and> jwt_decode demo_utils ''A1'' = Claims 1
   \<and> find (\<lambda>x. id' x = 1) (users demo_store) = Some root_user
   \<and> list_ex (is_admin_role demo_utils) (roles root_user)
   \<and> get_all_users demo_utils [''user_access_token'' \<mapsto> ''A1''] demo_store =
       (Inr (Listing [root_user, bob_user]),
        demo_store\<lparr>calls := [Find_all_users get_session_with_commit]\<rparr>)"
  using
    get_all_users_authorization [of Map.empty demo_utils demo_store "''A1''" 1 root_user]
    get_all_users_authorization
      [of "[''user_access_token'' \<mapsto> ''X1'']" demo_utils demo_store "''X1''" 1 root_user]
    get_all_users_authorization
      [of "[''user_access_token'' \<mapsto> ''A11'']" demo_utils demo_store "''A11''" 2 bob_user]
    get_all_users_authorization
      [of "[''user_access_token'' \<mapsto> ''A1'']" demo_utils demo_store "''A1''" 1 root_user]
  by (simp add: demo_utils_def demo_store_def root_user_def bob_user_def numeral_2_eq_2)

subsection \<open>Role creation leaves the users alone\<close>

lemma addroles_success_cases:
  assumes ok: "fst (addroles u jar role_data s) = Inr r"
  shows "name role_data \<notin> set (map role_name (roles_table s))
    \<and> addroles u jar role_data s =
        (Inr (Message Role_added),
         s\<lparr>calls := calls s @
              [Find_role get_session_with_commit (RoleAddModel (name role_data)),
               Add_role get_session_with_commit (RoleAddModel (name role_data))],
           roles_table := roles_table s @ [Role (name role_data)]\<rparr>)"
proof (cases "get_current_admin_user u jar s")
  case (Inl e)
  with ok show ?thesis
    by (simp add: addroles_def)
next
  case (Inr admin)
  show ?thesis
  proof (cases "find (\<lambda>x. role_name x = name role_data) (roles_table s)")
    case (Some role)
    with ok Inr show ?thesis
      by (simp add: addroles_def role_find_one_or_none_def)
  next
    case None
    then have fresh: "name role_data \<notin> set (map role_name (roles_table s))"
      by (simp add: find_role_None)
    with None Inr show ?thesis
      by (simp add: addroles_def role_find_one_or_none_def model_dump_role_def
          RoleAddModel_of_def role_add_def)
  qed
qed

text \<open>
  C8. A successful \<^verbatim>\<open>/addroles\<close> request appends one role with the submitted name to the
  role table, which held none of that name, and makes two DAO calls, both on roles: the
  lookup and the insert. The user table is the same list of rows as before, so no user
  was created or changed and no user's roles were touched.
\<close>

theorem addroles_only_creates_role:
  "fst (addroles u jar role_data s) = Inr r \<longrightarrow>
     roles_table (snd (addroles u jar role_data s)) = roles_table s @ [Role (name role_data)]
     \<and> name role_data \<notin> set (map role_name (roles_table s))
     \<and> users (snd (addroles u jar role_data s)) = users s
     \<and> racing (snd (addroles u jar role_data s)) = racing s
     \<and> new_calls s (snd (addroles u jar role_data s)) =
         [Find_role get_session_with_commit (RoleAddModel (name role_data)),
          Add_role get_session_with_commit (RoleAddModel (name role_data))]"
proof
  assume "fst (addroles u jar role_data s) = Inr r"
  from addroles_success_cases [OF this]
  show "roles_table (snd (addroles u jar role_data s)) = roles_table s @ [Role (name role_data)]
     \<and> name role_data \<notin> set (map role_name (roles_table s))
     \<and> users (snd (addroles u jar role_data s)) = users s
     \<and> racing (snd (addroles u jar role_data s)) = racing s
     \<and> new_calls s (snd (addroles u jar role_data s)) =
         [Find_role get_session_with_commit (RoleAddModel (name role_data)),
          Add_role get_session_with_commit (RoleAddModel (name role_data))]"
    by (simp add: new_calls_def)
qed

theorem addroles_only_creates_role_witness:
  "fst (addroles demo_utils [''user_access_token'' \<mapsto> ''A1''] (RoleAddModel ''editor'')
         demo_store) = Inr (Message Role_added)
   \<and> roles_table (snd (addroles demo_utils [''user_access_token'' \<mapsto> ''A1'']
         (RoleAddModel ''editor'') demo_store)) = [Role ''admin'', Role ''editor'']
   \<and> users (snd (addroles demo_utils [''user_access_token'' \<mapsto> ''A1'']
         (RoleAddModel ''editor'') demo_store)) = [root_user, bob_user]
   \<and> roles bob_user = []"
proof -
  have ok: "fst (addroles demo_utils [''user_access_token'' \<mapsto> ''A1''] (RoleAddModel ''editor'')
         demo_store) = Inr (Message Role_added)"
    by (simp add: addroles_def get_current_admin_user_def get_current_user_def
        resolve_token_def demo_utils_def demo_store_def root_user_def bob_user_def
        role_find_one_or_none_def model_dump_role_def RoleAddModel_of_def role_add_def)
  from ok
    addroles_only_creates_role
      [of demo_utils "[''user_access_token'' \<mapsto> ''A1'']" "RoleAddModel ''editor''"
        demo_store "Message Role_added"]
  show ?thesis
    by (simp add: demo_store_def bob_user_def)
qed

end
